theory Spec2Isabelle
  imports Main "HOL-Library.Word"
begin

section \<open>Build configuration and contract checks\<close>

text \<open>
  The sources guard their contracts with the C \<^verbatim>\<open>assert\<close> macro, which the
  preprocessor removes when \<^verbatim>\<open>NDEBUG\<close> is defined, and some of them
  additionally with \<^verbatim>\<open>#ifdef DEBUG_LEGATE\<close>. Both switches, and the
  largest rank the runtime was compiled for, are fixed per build.
\<close>

type_synonym int32_t = "32 word"
type_synonym uint32_t = "32 word"
type_synonym size_t = nat

record build =
  NDEBUG :: bool
  DEBUG_LEGATE :: bool
  LEGION_MAX_DIM :: int

datatype error =
  Assertion_Failed
  | Unsupported_Dimension
  | Empty_Instance_Fields

text \<open>
  \<^verbatim>\<open>assert(c); rest\<close>: the program aborts when the check is compiled in and
  \<open>c\<close> is false, and goes on with \<open>rest\<close> otherwise.
\<close>

definition c_assert :: "build \<Rightarrow> bool \<Rightarrow> (error + 'a) \<Rightarrow> error + 'a" where
  "c_assert cfg c rest = (if \<not> NDEBUG cfg \<and> \<not> c then Inl Assertion_Failed else rest)"

section \<open>Runtime types used at the boundary\<close>

text \<open>
  The types of the distributed runtime are outside the repository. They are represented
  by the attributes the sources read: a domain by its rank and bounds, a logical region by
  its tree id and index space, a requirement by its region and instance fields.
\<close>

type_synonym FieldID = "32 word"
type_synonym RegionTreeID = "32 word"
type_synonym MapperContext = nat

record Domain =
  dim :: int32_t
  dom_lo :: "int list"
  dom_hi :: "int list"

record IndexSpace =
  is_id :: nat
  is_dim :: int32_t

record LogicalRegion =
  tree_id :: RegionTreeID
  index_space :: IndexSpace

definition get_tree_id :: "LogicalRegion \<Rightarrow> RegionTreeID" where
  "get_tree_id r = tree_id r"

definition get_dim :: "LogicalRegion \<Rightarrow> int32_t" where
  "get_dim r = is_dim (index_space r)"

record RegionRequirement =
  region :: LogicalRegion
  instance_fields :: "FieldID list"

text \<open>
  The mapper runtime is an object with one member function that the sources call,
  \<^verbatim>\<open>get_index_space_domain(context, index_space)\<close>.
\<close>

record MapperRuntime =
  get_index_space_domain :: "MapperContext \<Rightarrow> IndexSpace \<Rightarrow> Domain"

text \<open>
  The element type codes: a boolean, the signed and unsigned integers of 8 to 64 bits,
  three floating point widths and the terminal sentinel.
\<close>

datatype LegateTypeCode =
  BOOL_LT | INT8_LT | INT16_LT | INT32_LT | INT64_LT
  | UINT8_LT | UINT16_LT | UINT32_LT | UINT64_LT
  | HALF_LT | FLOAT_LT | DOUBLE_LT | MAX_TYPE_NUMBER

section \<open>Transform stacks\<close>

text \<open>
  An affine transform of the runtime has \<open>m\<close> rows and \<open>n\<close> columns; a
  \<^verbatim>\<open>DomainAffineTransform\<close> pairs one with an offset.
\<close>

record AffineTransform =
  at_m :: int32_t
  at_n :: int32_t
  at_matrix :: "int list"

record DomainAffineTransform =
  dat_transform :: AffineTransform
  dat_offset :: "int list"

text \<open>
  The class \<^verbatim>\<open>TransformStack\<close> is declared outside the sources. A stack is
  represented by the two member functions that the sources call on it: the forward map
  of a domain and the inverse map for a requested rank. A Store holds an optional stack
  (\<^verbatim>\<open>nullptr\<close> is \<open>None\<close>).
\<close>

record TransformStack =
  transform :: "Domain \<Rightarrow> Domain"
  inverse_transform :: "int32_t \<Rightarrow> DomainAffineTransform"

section \<open>The mapping side: \<^verbatim>\<open>core/mapping/operation.cc\<close>\<close>

subsection \<open>RegionField and FutureWrapper\<close>

record mapping_RegionField =
  mrf_req :: RegionRequirement
  mrf_dim :: int32_t
  mrf_idx :: uint32_t
  mrf_fid :: FieldID

definition RegionField_ctor ::
    "RegionRequirement \<Rightarrow> int32_t \<Rightarrow> uint32_t \<Rightarrow> FieldID \<Rightarrow> mapping_RegionField" where
  "RegionField_ctor req d idx fid = \<lparr>mrf_req = req, mrf_dim = d, mrf_idx = idx, mrf_fid = fid\<rparr>"

definition get_requirement :: "mapping_RegionField \<Rightarrow> RegionRequirement" where
  "get_requirement rf = mrf_req rf"

definition RegionField_can_colocate_with ::
    "mapping_RegionField \<Rightarrow> mapping_RegionField \<Rightarrow> bool" where
  "RegionField_can_colocate_with this other =
     (let my_req = get_requirement this;
          other_req = get_requirement other
      in get_tree_id (region my_req) = get_tree_id (region other_req))"

definition get_index_space :: "mapping_RegionField \<Rightarrow> IndexSpace" where
  "get_index_space rf = index_space (region (mrf_req rf))"

definition RegionField_domain ::
    "mapping_RegionField \<Rightarrow> MapperRuntime \<Rightarrow> MapperContext \<Rightarrow> Domain" where
  "RegionField_domain rf runtime ctx = get_index_space_domain runtime ctx (get_index_space rf)"

record mapping_FutureWrapper =
  fw_idx :: uint32_t
  fw_domain :: Domain

definition FutureWrapper_ctor :: "uint32_t \<Rightarrow> Domain \<Rightarrow> mapping_FutureWrapper" where
  "FutureWrapper_ctor idx d = \<lparr>fw_idx = idx, fw_domain = d\<rparr>"

definition FutureWrapper_domain :: "mapping_FutureWrapper \<Rightarrow> Domain" where
  "FutureWrapper_domain fw = fw_domain fw"

subsection \<open>Store\<close>

text \<open>
  The members of \<^verbatim>\<open>legate::mapping::Store\<close>, as its three constructors
  initialise them.
\<close>

record mapping_Store =
  ms_is_future :: bool
  ms_is_output_store :: bool
  ms_dim :: int32_t
  ms_code :: LegateTypeCode
  ms_redop_id :: int32_t
  ms_region_field :: mapping_RegionField
  ms_future :: mapping_FutureWrapper
  ms_transform :: "TransformStack option"
  ms_runtime :: MapperRuntime
  ms_context :: MapperContext

text \<open>
  A constructor sets the members of its initialiser list; the others keep the values
  they have in the default-initialised object, here the argument \<open>this\<close>.
\<close>

definition Store_from_future ::
    "mapping_Store \<Rightarrow> int32_t \<Rightarrow> LegateTypeCode \<Rightarrow> mapping_FutureWrapper
      \<Rightarrow> TransformStack option \<Rightarrow> mapping_Store" where
  "Store_from_future this d c fut tr =
     this\<lparr>ms_is_future := True,
          ms_is_output_store := False,
          ms_dim := d,
          ms_code := c,
          ms_redop_id := - 1,
          ms_future := fut,
          ms_transform := tr\<rparr>"

definition Store_from_region_field ::
    "mapping_Store \<Rightarrow> MapperRuntime \<Rightarrow> MapperContext \<Rightarrow> int32_t \<Rightarrow> LegateTypeCode
      \<Rightarrow> int32_t \<Rightarrow> mapping_RegionField \<Rightarrow> bool \<Rightarrow> TransformStack option
      \<Rightarrow> mapping_Store" where
  "Store_from_region_field this runtime ctx d c redop_id rf is_output_store tr =
     this\<lparr>ms_is_future := False,
          ms_is_output_store := is_output_store,
          ms_dim := d,
          ms_code := c,
          ms_redop_id := redop_id,
          ms_region_field := rf,
          ms_transform := tr,
          ms_runtime := runtime,
          ms_context := ctx\<rparr>"

text \<open>
  The constructor from a requirement reads the first instance field with
  \<^verbatim>\<open>front()\<close>, which has no defined result on an empty vector: the model
  stops there with an error.
\<close>

definition Store_from_requirement ::
    "mapping_Store \<Rightarrow> MapperRuntime \<Rightarrow> MapperContext \<Rightarrow> RegionRequirement
      \<Rightarrow> error + mapping_Store" where
  "Store_from_requirement this runtime ctx requirement =
     (let s = this\<lparr>ms_is_future := False,
                   ms_is_output_store := False,
                   ms_dim := get_dim (region requirement),
                   ms_code := MAX_TYPE_NUMBER,
                   ms_redop_id := - 1,
                   ms_runtime := runtime,
                   ms_context := ctx\<rparr>
      in case instance_fields requirement of
           [] \<Rightarrow> Inl Empty_Instance_Fields
         | fid # _ \<Rightarrow>
             Inr (s\<lparr>ms_region_field := RegionField_ctor requirement (ms_dim s) 0 fid\<rparr>))"

text \<open>
  Modelled from the spec: the inline queries \<^verbatim>\<open>is_future()\<close>,
  \<^verbatim>\<open>unbound()\<close>, \<^verbatim>\<open>redop()\<close> and \<^verbatim>\<open>is_reduction()\<close> of the class
  declaration, which is not among the sources. The specification gives a Store an
  \<open>is_future\<close> flag, an \<open>is_output_store\<close> flag that is true for an unbound output, and
  a reduction-operator id that is either set or "none"; the constructors above write
  \<open>-1\<close> where no operator is given, and the id is set if and only if the store denotes
  a reduction target.
\<close>

definition is_future :: "mapping_Store \<Rightarrow> bool" where
  "is_future s = ms_is_future s"

definition unbound :: "mapping_Store \<Rightarrow> bool" where
  "unbound s = ms_is_output_store s"

definition redop :: "mapping_Store \<Rightarrow> int32_t" where
  "redop s = ms_redop_id s"

definition is_reduction :: "mapping_Store \<Rightarrow> bool" where
  "is_reduction s = (ms_redop_id s \<noteq> - 1)"

definition Store_can_colocate_with :: "mapping_Store \<Rightarrow> mapping_Store \<Rightarrow> bool" where
  "Store_can_colocate_with this other =
     (if is_future this \<or> is_future other then False
      else if unbound this \<or> unbound other then False
      else if is_reduction this \<or> is_reduction other then
        redop this = redop other
        \<and> RegionField_can_colocate_with (ms_region_field this) (ms_region_field other)
      else RegionField_can_colocate_with (ms_region_field this) (ms_region_field other))"

text \<open>
  \<^verbatim>\<open>Store::region_field()\<close> and \<^verbatim>\<open>Store::future()\<close> check the kind of
  the store only when \<^verbatim>\<open>DEBUG_LEGATE\<close> is defined.
\<close>

definition Store_region_field :: "build \<Rightarrow> mapping_Store \<Rightarrow> error + mapping_RegionField" where
  "Store_region_field cfg s =
     (if DEBUG_LEGATE cfg then c_assert cfg (\<not> is_future s) (Inr (ms_region_field s))
      else Inr (ms_region_field s))"

definition Store_future :: "build \<Rightarrow> mapping_Store \<Rightarrow> error + mapping_FutureWrapper" where
  "Store_future cfg s =
     (if DEBUG_LEGATE cfg then c_assert cfg (is_future s) (Inr (ms_future s))
      else Inr (ms_future s))"

definition requirement_index :: "build \<Rightarrow> mapping_Store \<Rightarrow> error + uint32_t" where
  "requirement_index cfg s =
     (case Store_region_field cfg s of Inl e \<Rightarrow> Inl e | Inr rf \<Rightarrow> Inr (mrf_idx rf))"

definition future_index :: "build \<Rightarrow> mapping_Store \<Rightarrow> error + uint32_t" where
  "future_index cfg s =
     (case Store_future cfg s of Inl e \<Rightarrow> Inl e | Inr fw \<Rightarrow> Inr (fw_idx fw))"

text \<open>
  \<^verbatim>\<open>Store::domain()\<close>: two plain assertions around the query of the backing
  and the optional forward transform.
\<close>

definition Store_domain :: "build \<Rightarrow> mapping_Store \<Rightarrow> error + Domain" where
  "Store_domain cfg s =
     c_assert cfg (\<not> unbound s)
       (let result = (if ms_is_future s then FutureWrapper_domain (ms_future s)
                      else RegionField_domain (ms_region_field s) (ms_runtime s) (ms_context s));
            result = (case ms_transform s of
                        Some ts \<Rightarrow> transform ts result
                      | None \<Rightarrow> result)
        in c_assert cfg (dim result = ms_dim s) (Inr result))"

section \<open>The task side: \<^verbatim>\<open>core.inl\<close>\<close>

subsection \<open>Accessors\<close>

text \<open>
  An accessor of the runtime is built by a constructor call; the model keeps the call.
  The accessor type records its template arguments: an element type \<open>T\<close> by
  \<^verbatim>\<open>sizeof(T)\<close>, the only attribute of \<open>T\<close> the sources read, a reduction
  operator \<open>OP\<close> by \<^verbatim>\<open>OP::REDOP_ID\<close>, and the static rank \<open>DIM\<close>.
\<close>

type_synonym PhysicalRegion = nat
type_synonym Future = nat

record Rect =
  rect_dim :: int32_t
  rect_lo :: "int list"
  rect_hi :: "int list"

datatype memkind = NO_MEMKIND | SYSTEM_MEM | GPU_FB_MEM | Z_COPY_MEM

datatype accessor_type =
  AccessorRO size_t int32_t
  | AccessorWO size_t int32_t
  | AccessorRW size_t int32_t
  | AccessorRD int32_t bool int32_t

text \<open>
  The three shapes of constructor call in the sources:
  \<^item> \<open>Region_Args pr fid redop_id bounds\<close>: from a physical region and a field, with the
    reduction-operator id of a reduction accessor and the bounds of a bounded one;
  \<^item> \<open>Transformed_Args M pr fid redop_id transform bounds\<close>: the same through
    \<^verbatim>\<open>trans_accesor_fn\<close>, specialised to the transform's \<open>M\<close> rows;
  \<^item> \<open>Future_Args future bounds memkind field_size check_field_size silence_warnings
    warning_string offset\<close>: from a future.
\<close>

datatype ctor_args =
  Region_Args PhysicalRegion FieldID "int32_t option" "Rect option"
  | Transformed_Args int32_t PhysicalRegion FieldID "int32_t option" DomainAffineTransform
      "Rect option"
  | Future_Args Future "Rect option" memkind size_t bool bool "string option" size_t

record accessor =
  acc_type :: accessor_type
  acc_args :: ctor_args


definition sizeof_uint64_t :: size_t where
  "sizeof_uint64_t = 8"

text \<open>
  Modelled from the spec: \<^verbatim>\<open>dim_dispatch\<close>, whose header is not among the
  sources. The dispatcher maps a runtime rank between 1 and the maximum supported
  dimension to the code path specialised for that rank; a rank beyond the maximum is a
  fatal error.
\<close>

definition dim_dispatch :: "build \<Rightarrow> int32_t \<Rightarrow> (int32_t \<Rightarrow> 'a) \<Rightarrow> error + 'a" where
  "dim_dispatch cfg d f =
     (if 1 \<le> sint d \<and> sint d \<le> LEGION_MAX_DIM cfg then Inr (f d)
      else Inl Unsupported_Dimension)"

definition trans_accesor_fn ::
    "accessor_type \<Rightarrow> PhysicalRegion \<Rightarrow> FieldID \<Rightarrow> int32_t option \<Rightarrow> DomainAffineTransform
      \<Rightarrow> Rect option \<Rightarrow> int32_t \<Rightarrow> accessor" where
  "trans_accesor_fn ACC pr fid redop_id tr bounds M =
     \<lparr>acc_type = ACC, acc_args = Transformed_Args M pr fid redop_id tr bounds\<rparr>"

subsection \<open>RegionField\<close>

record RegionField =
  rf_pr :: PhysicalRegion
  rf_fid :: FieldID

definition RegionField_read_accessor :: "size_t \<Rightarrow> int32_t \<Rightarrow> RegionField \<Rightarrow> accessor" where
  "RegionField_read_accessor sizeof_T DIM rf =
     \<lparr>acc_type = AccessorRO sizeof_T DIM,
      acc_args = Region_Args (rf_pr rf) (rf_fid rf) None None\<rparr>"

definition RegionField_write_accessor :: "size_t \<Rightarrow> int32_t \<Rightarrow> RegionField \<Rightarrow> accessor" where
  "RegionField_write_accessor sizeof_T DIM rf =
     \<lparr>acc_type = AccessorWO sizeof_T DIM,
      acc_args = Region_Args (rf_pr rf) (rf_fid rf) None None\<rparr>"

definition RegionField_read_write_accessor ::
    "size_t \<Rightarrow> int32_t \<Rightarrow> RegionField \<Rightarrow> accessor" where
  "RegionField_read_write_accessor sizeof_T DIM rf =
     \<lparr>acc_type = AccessorRW sizeof_T DIM,
      acc_args = Region_Args (rf_pr rf) (rf_fid rf) None None\<rparr>"

definition RegionField_reduce_accessor ::
    "int32_t \<Rightarrow> bool \<Rightarrow> int32_t \<Rightarrow> RegionField \<Rightarrow> int32_t \<Rightarrow> accessor" where
  "RegionField_reduce_accessor OP EXCLUSIVE DIM rf redop_id =
     \<lparr>acc_type = AccessorRD OP EXCLUSIVE DIM,
      acc_args = Region_Args (rf_pr rf) (rf_fid rf) (Some redop_id) None\<rparr>"

definition RegionField_read_accessor_transform ::
    "build \<Rightarrow> size_t \<Rightarrow> int32_t \<Rightarrow> RegionField \<Rightarrow> DomainAffineTransform \<Rightarrow> error + accessor" where
  "RegionField_read_accessor_transform cfg sizeof_T DIM rf tr =
     dim_dispatch cfg (at_m (dat_transform tr))
       (trans_accesor_fn (AccessorRO sizeof_T DIM) (rf_pr rf) (rf_fid rf) None tr None)"

definition RegionField_write_accessor_transform ::
    "build \<Rightarrow> size_t \<Rightarrow> int32_t \<Rightarrow> RegionField \<Rightarrow> DomainAffineTransform \<Rightarrow> error + accessor" where
  "RegionField_write_accessor_transform cfg sizeof_T DIM rf tr =
     dim_dispatch cfg (at_m (dat_transform tr))
       (trans_accesor_fn (AccessorWO sizeof_T DIM) (rf_pr rf) (rf_fid rf) None tr None)"

definition RegionField_read_write_accessor_transform ::
    "build \<Rightarrow> size_t \<Rightarrow> int32_t \<Rightarrow> RegionField \<Rightarrow> DomainAffineTransform \<Rightarrow> error + accessor" where
  "RegionField_read_write_accessor_transform cfg sizeof_T DIM rf tr =
     dim_dispatch cfg (at_m (dat_transform tr))
       (trans_accesor_fn (AccessorRW sizeof_T DIM) (rf_pr rf) (rf_fid rf) None tr None)"

definition RegionField_reduce_accessor_transform ::
    "build \<Rightarrow> int32_t \<Rightarrow> bool \<Rightarrow> int32_t \<Rightarrow> RegionField \<Rightarrow> int32_t \<Rightarrow> DomainAffineTransform
      \<Rightarrow> error + accessor" where
  "RegionField_reduce_accessor_transform cfg OP EXCLUSIVE DIM rf redop_id tr =
     dim_dispatch cfg (at_m (dat_transform tr))
       (trans_accesor_fn (AccessorRD OP EXCLUSIVE DIM) (rf_pr rf) (rf_fid rf) (Some redop_id)
          tr None)"

definition RegionField_read_accessor_bounds ::
    "size_t \<Rightarrow> int32_t \<Rightarrow> RegionField \<Rightarrow> Rect \<Rightarrow> accessor" where
  "RegionField_read_accessor_bounds sizeof_T DIM rf bounds =
     \<lparr>acc_type = AccessorRO sizeof_T DIM,
      acc_args = Region_Args (rf_pr rf) (rf_fid rf) None (Some bounds)\<rparr>"

definition RegionField_write_accessor_bounds ::
    "size_t \<Rightarrow> int32_t \<Rightarrow> RegionField \<Rightarrow> Rect \<Rightarrow> accessor" where
  "RegionField_write_accessor_bounds sizeof_T DIM rf bounds =
     \<lparr>acc_type = AccessorWO sizeof_T DIM,
      acc_args = Region_Args (rf_pr rf) (rf_fid rf) None (Some bounds)\<rparr>"

definition RegionField_read_write_accessor_bounds ::
    "size_t \<Rightarrow> int32_t \<Rightarrow> RegionField \<Rightarrow> Rect \<Rightarrow> accessor" where
  "RegionField_read_write_accessor_bounds sizeof_T DIM rf bounds =
     \<lparr>acc_type = AccessorRW sizeof_T DIM,
      acc_args = Region_Args (rf_pr rf) (rf_fid rf) None (Some bounds)\<rparr>"

definition RegionField_reduce_accessor_bounds ::
    "int32_t \<Rightarrow> bool \<Rightarrow> int32_t \<Rightarrow> RegionField \<Rightarrow> int32_t \<Rightarrow> Rect \<Rightarrow> accessor" where
  "RegionField_reduce_accessor_bounds OP EXCLUSIVE DIM rf redop_id bounds =
     \<lparr>acc_type = AccessorRD OP EXCLUSIVE DIM,
      acc_args = Region_Args (rf_pr rf) (rf_fid rf) (Some redop_id) (Some bounds)\<rparr>"

definition RegionField_read_accessor_bounds_transform ::
    "build \<Rightarrow> size_t \<Rightarrow> int32_t \<Rightarrow> RegionField \<Rightarrow> Rect \<Rightarrow> DomainAffineTransform
      \<Rightarrow> error + accessor" where
  "RegionField_read_accessor_bounds_transform cfg sizeof_T DIM rf bounds tr =
     dim_dispatch cfg (at_m (dat_transform tr))
       (trans_accesor_fn (AccessorRO sizeof_T DIM) (rf_pr rf) (rf_fid rf) None tr (Some bounds))"

definition RegionField_write_accessor_bounds_transform ::
    "build \<Rightarrow> size_t \<Rightarrow> int32_t \<Rightarrow> RegionField \<Rightarrow> Rect \<Rightarrow> DomainAffineTransform
      \<Rightarrow> error + accessor" where
  "RegionField_write_accessor_bounds_transform cfg sizeof_T DIM rf bounds tr =
     dim_dispatch cfg (at_m (dat_transform tr))
       (trans_accesor_fn (AccessorWO sizeof_T DIM) (rf_pr rf) (rf_fid rf) None tr (Some bounds))"

definition RegionField_read_write_accessor_bounds_transform ::
    "build \<Rightarrow> size_t \<Rightarrow> int32_t \<Rightarrow> RegionField \<Rightarrow> Rect \<Rightarrow> DomainAffineTransform
      \<Rightarrow> error + accessor" where
  "RegionField_read_write_accessor_bounds_transform cfg sizeof_T DIM rf bounds tr =
     dim_dispatch cfg (at_m (dat_transform tr))
       (trans_accesor_fn (AccessorRW sizeof_T DIM) (rf_pr rf) (rf_fid rf) None tr (Some bounds))"

definition RegionField_reduce_accessor_bounds_transform ::
    "build \<Rightarrow> int32_t \<Rightarrow> bool \<Rightarrow> int32_t \<Rightarrow> RegionField \<Rightarrow> int32_t \<Rightarrow> Rect
      \<Rightarrow> DomainAffineTransform \<Rightarrow> error + accessor" where
  "RegionField_reduce_accessor_bounds_transform cfg OP EXCLUSIVE DIM rf redop_id bounds tr =
     dim_dispatch cfg (at_m (dat_transform tr))
       (trans_accesor_fn (AccessorRD OP EXCLUSIVE DIM) (rf_pr rf) (rf_fid rf) (Some redop_id)
          tr (Some bounds))"

subsection \<open>Store\<close>

text \<open>
  The members of \<^verbatim>\<open>legate::Store\<close> that the member functions of
  \<^verbatim>\<open>core.inl\<close> read.
\<close>

record Store =
  s_is_future :: bool
  s_dim :: int32_t
  s_redop_id :: int32_t
  s_future :: Future
  s_region_field :: RegionField
  s_transform :: "TransformStack option"

definition Store_read_accessor :: "build \<Rightarrow> size_t \<Rightarrow> int32_t \<Rightarrow> Store \<Rightarrow> error + accessor" where
  "Store_read_accessor cfg sizeof_T DIM s =
     c_assert cfg (DIM = s_dim s \<or> s_dim s = 0)
       (if s_is_future s then
          (let memkind = NO_MEMKIND
           in Inr \<lparr>acc_type = AccessorRO sizeof_T DIM,
                   acc_args = Future_Args (s_future s) None memkind sizeof_T False False None
                                sizeof_uint64_t\<rparr>)
        else case s_transform s of
          Some ts \<Rightarrow>
            (let tr = inverse_transform ts (s_dim s)
             in RegionField_read_accessor_transform cfg sizeof_T DIM (s_region_field s) tr)
        | None \<Rightarrow> Inr (RegionField_read_accessor sizeof_T DIM (s_region_field s)))"

definition Store_write_accessor :: "build \<Rightarrow> size_t \<Rightarrow> int32_t \<Rightarrow> Store \<Rightarrow> error + accessor" where
  "Store_write_accessor cfg sizeof_T DIM s =
     c_assert cfg (DIM = s_dim s \<or> s_dim s = 0)
       (c_assert cfg (\<not> s_is_future s)
          (case s_transform s of
             Some ts \<Rightarrow>
               (let tr = inverse_transform ts (s_dim s)
                in RegionField_write_accessor_transform cfg sizeof_T DIM (s_region_field s) tr)
           | None \<Rightarrow> Inr (RegionField_write_accessor sizeof_T DIM (s_region_field s))))"

definition Store_read_write_accessor ::
    "build \<Rightarrow> size_t \<Rightarrow> int32_t \<Rightarrow> Store \<Rightarrow> error + accessor" where
  "Store_read_write_accessor cfg sizeof_T DIM s =
     c_assert cfg (DIM = s_dim s \<or> s_dim s = 0)
       (c_assert cfg (\<not> s_is_future s)
          (case s_transform s of
             Some ts \<Rightarrow>
               (let tr = inverse_transform ts (s_dim s)
                in RegionField_read_write_accessor_transform cfg sizeof_T DIM
                     (s_region_field s) tr)
           | None \<Rightarrow> Inr (RegionField_read_write_accessor sizeof_T DIM (s_region_field s))))"

definition Store_reduce_accessor ::
    "build \<Rightarrow> int32_t \<Rightarrow> bool \<Rightarrow> int32_t \<Rightarrow> Store \<Rightarrow> error + accessor" where
  "Store_reduce_accessor cfg REDOP_ID EXCLUSIVE DIM s =
     c_assert cfg (DIM = s_dim s)
       (c_assert cfg (\<not> s_is_future s)
          (c_assert cfg (REDOP_ID = s_redop_id s)
             (case s_transform s of
                Some ts \<Rightarrow>
                  (let tr = inverse_transform ts DIM
                   in RegionField_reduce_accessor_transform cfg REDOP_ID EXCLUSIVE DIM
                        (s_region_field s) (s_redop_id s) tr)
              | None \<Rightarrow>
                  Inr (RegionField_reduce_accessor REDOP_ID EXCLUSIVE DIM (s_region_field s)
                         (s_redop_id s)))))"

definition Store_read_accessor_bounds ::
    "build \<Rightarrow> size_t \<Rightarrow> int32_t \<Rightarrow> Store \<Rightarrow> Rect \<Rightarrow> error + accessor" where
  "Store_read_accessor_bounds cfg sizeof_T DIM s bounds =
     c_assert cfg (DIM = s_dim s)
       (if s_is_future s then
          (let memkind = NO_MEMKIND
           in Inr \<lparr>acc_type = AccessorRO sizeof_T DIM,
                   acc_args = Future_Args (s_future s) (Some bounds) memkind sizeof_T False
                                False None sizeof_uint64_t\<rparr>)
        else case s_transform s of
          Some ts \<Rightarrow>
            (let tr = inverse_transform ts DIM
             in RegionField_read_accessor_bounds_transform cfg sizeof_T DIM (s_region_field s)
                  bounds tr)
        | None \<Rightarrow> Inr (RegionField_read_accessor_bounds sizeof_T DIM (s_region_field s) bounds))"

definition Store_write_accessor_bounds ::
    "build \<Rightarrow> size_t \<Rightarrow> int32_t \<Rightarrow> Store \<Rightarrow> Rect \<Rightarrow> error + accessor" where
  "Store_write_accessor_bounds cfg sizeof_T DIM s bounds =
     c_assert cfg (\<not> s_is_future s)
       (c_assert cfg (DIM = s_dim s)
          (case s_transform s of
             Some ts \<Rightarrow>
               (let tr = inverse_transform ts DIM
                in RegionField_write_accessor_bounds_transform cfg sizeof_T DIM
                     (s_region_field s) bounds tr)
           | None \<Rightarrow>
               Inr (RegionField_write_accessor_bounds sizeof_T DIM (s_region_field s) bounds)))"

definition Store_read_write_accessor_bounds ::
    "build \<Rightarrow> size_t \<Rightarrow> int32_t \<Rightarrow> Store \<Rightarrow> Rect \<Rightarrow> error + accessor" where
  "Store_read_write_accessor_bounds cfg sizeof_T DIM s bounds =
     c_assert cfg (\<not> s_is_future s)
       (c_assert cfg (DIM = s_dim s)
          (case s_transform s of
             Some ts \<Rightarrow>
               (let tr = inverse_transform ts DIM
                in RegionField_read_write_accessor_bounds_transform cfg sizeof_T DIM
                     (s_region_field s) bounds tr)
           | None \<Rightarrow>
               Inr (RegionField_read_write_accessor_bounds sizeof_T DIM (s_region_field s)
                      bounds)))"

definition Store_reduce_accessor_bounds ::
    "build \<Rightarrow> int32_t \<Rightarrow> bool \<Rightarrow> int32_t \<Rightarrow> Store \<Rightarrow> Rect \<Rightarrow> error + accessor" where
  "Store_reduce_accessor_bounds cfg REDOP_ID EXCLUSIVE DIM s bounds =
     c_assert cfg (\<not> s_is_future s)
       (c_assert cfg (DIM = s_dim s)
          (case s_transform s of
             Some ts \<Rightarrow>
               (let tr = inverse_transform ts DIM
                in RegionField_reduce_accessor_bounds_transform cfg REDOP_ID EXCLUSIVE DIM
                     (s_region_field s) (s_redop_id s) bounds tr)
           | None \<Rightarrow>
               Inr (RegionField_reduce_accessor_bounds REDOP_ID EXCLUSIVE DIM
                      (s_region_field s) (s_redop_id s) bounds)))"

text \<open>
  \<^verbatim>\<open>Store::shape<DIM>()\<close> is \<^verbatim>\<open>Legion::Rect<DIM>(domain())\<close>: it hands
  the result of the domain query to the runtime's conversion of a domain to a rectangle
  of the static rank. Neither the domain query of the task-side class nor the runtime's
  conversion is among the sources, so both are arguments of the model: \<open>domain_query\<close>
  for the former, \<open>to_Rect\<close> for the latter, which may fail.
\<close>

definition Store_shape ::
    "('s \<Rightarrow> error + Domain) \<Rightarrow> (int32_t \<Rightarrow> Domain \<Rightarrow> error + Rect) \<Rightarrow> int32_t \<Rightarrow> 's
      \<Rightarrow> error + Rect" where
  "Store_shape domain_query to_Rect DIM s =
     (case domain_query s of
        Inl e \<Rightarrow> Inl e
      | Inr d \<Rightarrow> to_Rect DIM d)"

text \<open>
  \<^verbatim>\<open>Store::scalar<VAL>()\<close>: \<open>get_result\<close> stands for the runtime's
  \<^verbatim>\<open>get_result<VAL>\<close>, which reads the value of a future at type \<open>VAL\<close>.
\<close>

definition Store_scalar :: "build \<Rightarrow> (Future \<Rightarrow> 'v) \<Rightarrow> Store \<Rightarrow> error + 'v" where
  "Store_scalar cfg get_result s =
     c_assert cfg (s_is_future s) (Inr (get_result (s_future s)))"

section \<open>Copy: \<^verbatim>\<open>core/mapping/operation.cc\<close>\<close>

text \<open>
  The copy deserializer is outside the sources. It is an object with a state \<open>'d\<close>
  and three operations that the constructor of \<^verbatim>\<open>Copy\<close> calls: its own
  construction from the mapper data and the four requirement lists, the unpacking of a
  list of Stores, which returns the list and the advanced state, and the step to the
  next requirement list.
\<close>

record LegionCopy =
  mapper_data :: "8 word list"
  mapper_data_size :: size_t
  src_requirements :: "RegionRequirement list"
  dst_requirements :: "RegionRequirement list"
  src_indirect_requirements :: "RegionRequirement list"
  dst_indirect_requirements :: "RegionRequirement list"

record 'd CopyDeserializer =
  dez_ctor :: "8 word list \<Rightarrow> size_t \<Rightarrow> RegionRequirement list list \<Rightarrow> MapperRuntime
                \<Rightarrow> MapperContext \<Rightarrow> 'd"
  unpack_Stores :: "'d \<Rightarrow> mapping_Store list \<times> 'd"
  next_requirement_list :: "'d \<Rightarrow> 'd"

record Copy =
  copy_op :: LegionCopy
  inputs :: "mapping_Store list"
  outputs :: "mapping_Store list"
  input_indirections :: "mapping_Store list"
  output_indirections :: "mapping_Store list"

text \<open>\<^verbatim>\<open>for (auto& x : xs) assert(!x.is_future());\<close>\<close>

fun assert_none_future :: "build \<Rightarrow> mapping_Store list \<Rightarrow> (error + 'a) \<Rightarrow> error + 'a" where
  "assert_none_future cfg [] rest = rest"
| "assert_none_future cfg (x # xs) rest =
     c_assert cfg (\<not> is_future x) (assert_none_future cfg xs rest)"

definition Copy_ctor ::
    "build \<Rightarrow> 'd CopyDeserializer \<Rightarrow> LegionCopy \<Rightarrow> MapperRuntime \<Rightarrow> MapperContext
      \<Rightarrow> error + Copy" where
  "Copy_ctor cfg D c runtime ctx =
     (let dez = dez_ctor D (mapper_data c) (mapper_data_size c)
                  [src_requirements c, dst_requirements c,
                   src_indirect_requirements c, dst_indirect_requirements c]
                  runtime ctx;
          (ins, dez) = unpack_Stores D dez;
          dez = next_requirement_list D dez;
          (outs, dez) = unpack_Stores D dez;
          dez = next_requirement_list D dez;
          (in_inds, dez) = unpack_Stores D dez;
          dez = next_requirement_list D dez;
          (out_inds, dez) = unpack_Stores D dez;
          this = \<lparr>copy_op = c, inputs = ins, outputs = outs,
                  input_indirections = in_inds, output_indirections = out_inds\<rparr>
      in if DEBUG_LEGATE cfg then
           assert_none_future cfg ins
             (assert_none_future cfg outs
                (assert_none_future cfg in_inds
                   (assert_none_future cfg out_inds (Inr this))))
         else Inr this)"

section \<open>Example objects\<close>

text \<open>
  Concrete builds, requirements and stores, used to evaluate the definitions: an
  instrumented build and a release build; a 4 by 4 region domain and a one-point future
  domain; mapping-side stores over a region of a given tree, and task-side stores over
  one field of a physical region.
\<close>

definition instrumented :: build where
  "instrumented = \<lparr>NDEBUG = False, DEBUG_LEGATE = True, LEGION_MAX_DIM = 3\<rparr>"

definition release :: build where
  "release = \<lparr>NDEBUG = True, DEBUG_LEGATE = False, LEGION_MAX_DIM = 3\<rparr>"

definition grid_domain :: Domain where
  "grid_domain = \<lparr>dim = 2, dom_lo = [0, 0], dom_hi = [3, 3]\<rparr>"

definition point_domain :: Domain where
  "point_domain = \<lparr>dim = 1, dom_lo = [0], dom_hi = [0]\<rparr>"

definition grid_runtime :: MapperRuntime where
  "grid_runtime = \<lparr>get_index_space_domain = (\<lambda>ctx sp. grid_domain)\<rparr>"

definition requirement_in_tree :: "RegionTreeID \<Rightarrow> RegionRequirement" where
  "requirement_in_tree t =
     \<lparr>region = \<lparr>tree_id = t, index_space = \<lparr>is_id = 0, is_dim = 2\<rparr>\<rparr>,
      instance_fields = [7]\<rparr>"

definition blank_store :: mapping_Store where
  "blank_store =
     \<lparr>ms_is_future = False, ms_is_output_store = False, ms_dim = 0, ms_code = BOOL_LT,
      ms_redop_id = 0,
      ms_region_field = RegionField_ctor (requirement_in_tree 0) 0 0 0,
      ms_future = FutureWrapper_ctor 0 point_domain,
      ms_transform = None, ms_runtime = grid_runtime, ms_context = 0\<rparr>"

definition region_store :: "RegionTreeID \<Rightarrow> int32_t \<Rightarrow> bool \<Rightarrow> mapping_Store" where
  "region_store t redop_id is_output =
     Store_from_region_field blank_store grid_runtime 0 2 INT32_LT redop_id
       (RegionField_ctor (requirement_in_tree t) 2 0 7) is_output None"

definition future_store :: "int32_t \<Rightarrow> mapping_Store" where
  "future_store d =
     Store_from_future blank_store d INT32_LT (FutureWrapper_ctor 0 point_domain) None"

definition flatten_stack :: TransformStack where
  "flatten_stack =
     \<lparr>transform = (\<lambda>d. d\<lparr>dim := 2\<rparr>),
      inverse_transform =
        (\<lambda>d. \<lparr>dat_transform = \<lparr>at_m = 1, at_n = d, at_matrix = []\<rparr>, dat_offset = []\<rparr>)\<rparr>"

definition task_store :: "bool \<Rightarrow> int32_t \<Rightarrow> int32_t \<Rightarrow> TransformStack option \<Rightarrow> Store" where
  "task_store is_fut d redop_id tr =
     \<lparr>s_is_future = is_fut, s_dim = d, s_redop_id = redop_id, s_future = 0,
      s_region_field = \<lparr>rf_pr = 1, rf_fid = 7\<rparr>, s_transform = tr\<rparr>"

definition unit_rect :: Rect where
  "unit_rect = \<lparr>rect_dim = 2, rect_lo = [0, 0], rect_hi = [1, 1]\<rparr>"

text \<open>
  A conversion of a domain to a rectangle for evaluation, which accepts a domain of the
  static rank only, and a domain query of task-side stores that answers a future with
  the one-point domain and fails on a region.
\<close>

definition checked_rect :: "int32_t \<Rightarrow> Domain \<Rightarrow> error + Rect" where
  "checked_rect DIM d =
     (if DIM = dim d then Inr \<lparr>rect_dim = DIM, rect_lo = dom_lo d, rect_hi = dom_hi d\<rparr>
      else Inl Assertion_Failed)"

definition future_only_domain :: "Store \<Rightarrow> error + Domain" where
  "future_only_domain s = (if s_is_future s then Inr point_domain else Inl Assertion_Failed)"

text \<open>
  A deserializer for evaluation: its state is the list of Store lists still to be read
  and the number of the current requirement list.
\<close>

definition list_deserializer ::
    "mapping_Store list list \<Rightarrow> (mapping_Store list list \<times> nat) CopyDeserializer" where
  "list_deserializer groups =
     \<lparr>dez_ctor = (\<lambda>buf n reqs runtime ctx. (groups, 0)),
      unpack_Stores = (\<lambda>(gs, k). case gs of [] \<Rightarrow> ([], (gs, k)) | g # rest \<Rightarrow> (g, (rest, k))),
      next_requirement_list = (\<lambda>(gs, k). (gs, Suc k))\<rparr>"

definition empty_copy :: LegionCopy where
  "empty_copy =
     \<lparr>mapper_data = [], mapper_data_size = 0,
      src_requirements = [requirement_in_tree 1], dst_requirements = [requirement_in_tree 2],
      src_indirect_requirements = [], dst_indirect_requirements = []\<rparr>"

section \<open>Auxiliary facts\<close>

lemmas query_defs = is_future_def unbound_def redop_def is_reduction_def

lemmas example_defs = region_store_def future_store_def Store_from_region_field_def
  Store_from_future_def blank_store_def RegionField_ctor_def FutureWrapper_ctor_def
  requirement_in_tree_def

lemmas task_example_defs = task_store_def instrumented_def release_def unit_rect_def
  flatten_stack_def

lemmas Store_accessor_defs =
  Store_read_accessor_def Store_write_accessor_def Store_read_write_accessor_def
  Store_reduce_accessor_def Store_read_accessor_bounds_def Store_write_accessor_bounds_def
  Store_read_write_accessor_bounds_def Store_reduce_accessor_bounds_def

lemmas RegionField_transform_defs =
  RegionField_read_accessor_transform_def RegionField_write_accessor_transform_def
  RegionField_read_write_accessor_transform_def RegionField_reduce_accessor_transform_def
  RegionField_read_accessor_bounds_transform_def RegionField_write_accessor_bounds_transform_def
  RegionField_read_write_accessor_bounds_transform_def
  RegionField_reduce_accessor_bounds_transform_def


text \<open>A compiled-in check that holds, and any check that is compiled out, is skipped.\<close>

lemma c_assert_pass: "NDEBUG cfg \<or> c \<Longrightarrow> c_assert cfg c rest = rest"
  by (auto simp: c_assert_def)

lemma c_assert_fail: "\<not> NDEBUG cfg \<Longrightarrow> \<not> c \<Longrightarrow> c_assert cfg c rest = Inl Assertion_Failed"
  by (simp add: c_assert_def)

text \<open>The dispatcher fails with its own error, never with a failed assertion.\<close>

lemma dim_dispatch_not_assertion: "dim_dispatch cfg d f \<noteq> Inl Assertion_Failed"
  by (simp add: dim_dispatch_def)

text \<open>
  The loop of assertions over a list of Stores fails exactly when the check is compiled
  in and some Store of the list is future-backed.
\<close>

lemma assert_none_future_eq:
  "assert_none_future cfg xs rest =
     (if \<not> NDEBUG cfg \<and> list_ex is_future xs then Inl Assertion_Failed else rest)"
  by (induction xs) (auto simp: c_assert_def)

section \<open>Colocation of Stores\<close>

text \<open>
  Claim C1, as amended. \<^verbatim>\<open>Store::can_colocate_with\<close> returns false when either
  store is a future or unbound. Otherwise, when at least one of the two stores is a
  reduction target, it requires the reduction-operator ids of the two stores to be equal
  and the backing RegionFields to colocate. When neither is a reduction target it returns
  the result of the RegionFields' colocation test, which is true iff both regions have
  the same region-tree id.
\<close>

theorem can_colocate_with_cases:
  "(is_future a \<or> is_future b \<or> unbound a \<or> unbound b
      \<longrightarrow> Store_can_colocate_with a b = False)
   \<and> (\<not> is_future a \<and> \<not> is_future b \<and> \<not> unbound a \<and> \<not> unbound b
        \<and> (is_reduction a \<or> is_reduction b)
      \<longrightarrow> Store_can_colocate_with a b =
            (redop a = redop b
             \<and> RegionField_can_colocate_with (ms_region_field a) (ms_region_field b)))
   \<and> (\<not> is_future a \<and> \<not> is_future b \<and> \<not> unbound a \<and> \<not> unbound b
        \<and> \<not> is_reduction a \<and> \<not> is_reduction b
      \<longrightarrow> Store_can_colocate_with a b =
            RegionField_can_colocate_with (ms_region_field a) (ms_region_field b))
   \<and> RegionField_can_colocate_with (ms_region_field a) (ms_region_field b) =
       (tree_id (region (mrf_req (ms_region_field a))) =
        tree_id (region (mrf_req (ms_region_field b))))"
  by (simp add: Store_can_colocate_with_def RegionField_can_colocate_with_def
      get_requirement_def get_tree_id_def)

text \<open>
  The cases of C1 at concrete stores: a future, an unbound output, two reduction targets
  with equal and with different operators, and two plain stores in one tree and in two.
\<close>

theorem can_colocate_with_cases_witness:
  "Store_can_colocate_with (future_store 2) (region_store 1 (- 1) False) = False
   \<and> Store_can_colocate_with (region_store 1 (- 1) True) (region_store 1 (- 1) False) = False
   \<and> Store_can_colocate_with (region_store 1 5 False) (region_store 1 5 False) = True
   \<and> Store_can_colocate_with (region_store 1 5 False) (region_store 1 6 False) = False
   \<and> Store_can_colocate_with (region_store 1 (- 1) False) (region_store 1 (- 1) False) = True
   \<and> Store_can_colocate_with (region_store 1 (- 1) False) (region_store 2 (- 1) False) = False"
  using can_colocate_with_cases [of "future_store 2" "region_store 1 (- 1) False"]
    can_colocate_with_cases [of "region_store 1 (- 1) True" "region_store 1 (- 1) False"]
    can_colocate_with_cases [of "region_store 1 5 False" "region_store 1 5 False"]
    can_colocate_with_cases [of "region_store 1 5 False" "region_store 1 6 False"]
    can_colocate_with_cases [of "region_store 1 (- 1) False" "region_store 1 (- 1) False"]
    can_colocate_with_cases [of "region_store 1 (- 1) False" "region_store 2 (- 1) False"]
  by (simp add: query_defs example_defs)

text \<open>
  Claim C1 as stated says that with exactly one reduction target the result is that of
  the RegionFields' test. Here the first store reduces with operator 5, the second is no
  reduction target, both are bound and region-backed in tree 1: the RegionFields
  colocate, the Stores do not, because the branch for reductions is entered when either
  store is a reduction target and compares \<open>5\<close> with \<open>-1\<close>.
\<close>

theorem one_reduction_target_counterexample:
  "\<not> is_future (region_store 1 5 False) \<and> \<not> is_future (region_store 1 (- 1) False)
   \<and> \<not> unbound (region_store 1 5 False) \<and> \<not> unbound (region_store 1 (- 1) False)
   \<and> is_reduction (region_store 1 5 False) \<and> \<not> is_reduction (region_store 1 (- 1) False)
   \<and> RegionField_can_colocate_with (ms_region_field (region_store 1 5 False))
        (ms_region_field (region_store 1 (- 1) False)) = True
   \<and> Store_can_colocate_with (region_store 1 5 False) (region_store 1 (- 1) False) = False"
  by (simp add: Store_can_colocate_with_def RegionField_can_colocate_with_def
      get_requirement_def get_tree_id_def query_defs example_defs)

text \<open>
  Claim C3. \<^verbatim>\<open>Store::can_colocate_with\<close> is symmetric for every pair of bound,
  non-future, non-reduction region-backed stores sharing a region tree, and it returns
  false whenever either argument is a future or unbound.
\<close>

theorem can_colocate_with_symmetric:
  "(\<not> is_future a \<and> \<not> is_future b \<and> \<not> unbound a \<and> \<not> unbound b
      \<and> \<not> is_reduction a \<and> \<not> is_reduction b
      \<and> get_tree_id (region (get_requirement (ms_region_field a))) =
          get_tree_id (region (get_requirement (ms_region_field b)))
      \<longrightarrow> Store_can_colocate_with a b = Store_can_colocate_with b a)
   \<and> (is_future a \<or> is_future b \<or> unbound a \<or> unbound b
      \<longrightarrow> Store_can_colocate_with a b = False)"
  by (auto simp: Store_can_colocate_with_def RegionField_can_colocate_with_def)

text \<open>
  Two different bound region stores of tree 4 colocate in both orders; a region store
  does not colocate with a future, nor an unbound output with a region store.
\<close>

theorem can_colocate_with_symmetric_witness:
  "Store_can_colocate_with (region_store 4 (- 1) False) ((region_store 4 (- 1) False)\<lparr>ms_dim := 3\<rparr>)
     = Store_can_colocate_with ((region_store 4 (- 1) False)\<lparr>ms_dim := 3\<rparr>)
         (region_store 4 (- 1) False)
   \<and> Store_can_colocate_with (region_store 4 (- 1) False)
        ((region_store 4 (- 1) False)\<lparr>ms_dim := 3\<rparr>) = True
   \<and> Store_can_colocate_with (region_store 4 (- 1) False) (future_store 2) = False
   \<and> Store_can_colocate_with (region_store 4 (- 1) True) (region_store 4 (- 1) False) = False"
  using can_colocate_with_symmetric [of "region_store 4 (- 1) False"
      "(region_store 4 (- 1) False)\<lparr>ms_dim := 3\<rparr>"]
    can_colocate_with_symmetric [of "region_store 4 (- 1) False" "future_store 2"]
    can_colocate_with_symmetric [of "region_store 4 (- 1) True" "region_store 4 (- 1) False"]
  by (simp add: Store_can_colocate_with_def RegionField_can_colocate_with_def
      get_requirement_def get_tree_id_def query_defs example_defs)

section \<open>Accessor construction\<close>













text \<open>
  Claim C4, evaluated where it fails. A region-backed store of rank 2 records the
  reduction operator 5, and a reduction accessor is requested for operator 7 in an
  instrumented build. The constructor without bounds fails its assertion; the constructor
  with bounds has no such assertion and returns an accessor built with the recorded id 5.
\<close>

theorem reduce_accessor_bounds_unchecked:
  "Store_reduce_accessor instrumented 7 True 2 (task_store False 2 5 None)
     = Inl Assertion_Failed
   \<and> Store_reduce_accessor_bounds instrumented 7 True 2 (task_store False 2 5 None) unit_rect
     = Inr (RegionField_reduce_accessor_bounds 7 True 2 \<lparr>rf_pr = 1, rf_fid = 7\<rparr> 5 unit_rect)"
  by (simp add: task_example_defs Store_accessor_defs c_assert_def)

text \<open>
  Claim C9. On a future-backed store, a read accessor, with or without a bounding
  sub-rectangle, is constructed from the future with a field size equal to the size of
  the static element type and a trailing offset of 8 bytes, the size of
  \<^verbatim>\<open>uint64_t\<close>; the only other outcome is the failure of the dimension check.
\<close>

theorem future_read_accessor_offset:
  "s_is_future s \<longrightarrow>
     Store_read_accessor cfg sizeof_T DIM s =
       (if \<not> NDEBUG cfg \<and> \<not> (DIM = s_dim s \<or> s_dim s = 0) then Inl Assertion_Failed
        else Inr \<lparr>acc_type = AccessorRO sizeof_T DIM,
                 acc_args = Future_Args (s_future s) None NO_MEMKIND sizeof_T False False None 8\<rparr>)
     \<and> Store_read_accessor_bounds cfg sizeof_T DIM s bounds =
       (if \<not> NDEBUG cfg \<and> DIM \<noteq> s_dim s then Inl Assertion_Failed
        else Inr \<lparr>acc_type = AccessorRO sizeof_T DIM,
                 acc_args = Future_Args (s_future s) (Some bounds) NO_MEMKIND sizeof_T False False
                              None 8\<rparr>)"
  by (simp add: Store_read_accessor_def Store_read_accessor_bounds_def c_assert_def
      sizeof_uint64_t_def)

text \<open>A future-backed store of rank 2 and an element type of 4 bytes.\<close>

theorem future_read_accessor_offset_witness:
  "Store_read_accessor instrumented 4 2 (task_store True 2 (- 1) None) =
     Inr \<lparr>acc_type = AccessorRO 4 2,
          acc_args = Future_Args 0 None NO_MEMKIND 4 False False None 8\<rparr>
   \<and> Store_read_accessor_bounds instrumented 4 2 (task_store True 2 (- 1) None) unit_rect =
     Inr \<lparr>acc_type = AccessorRO 4 2,
          acc_args = Future_Args 0 (Some unit_rect) NO_MEMKIND 4 False False None 8\<rparr>"
  using future_read_accessor_offset [of "task_store True 2 (- 1) None" instrumented 4 2 unit_rect]
  by (simp add: task_store_def instrumented_def)

text \<open>
  Claim C10. In a build that checks assertions, the read-only, write-only and read-write
  constructors without bounds fail the dimension check exactly when the static rank
  differs from the recorded rank and the recorded rank is not 0; every constructor with
  bounds and both reduction constructors fail it exactly when the static rank differs
  from the recorded rank. The checks that come with it are taken as passed: the store is
  region-backed where the constructor asserts so, and the requested reduction operator
  is the recorded one.
\<close>

theorem dimension_checks:
  "\<not> NDEBUG cfg \<longrightarrow>
     (Store_read_accessor cfg sizeof_T DIM s = Inl Assertion_Failed)
       = (\<not> (DIM = s_dim s \<or> s_dim s = 0))
     \<and> (Store_read_accessor_bounds cfg sizeof_T DIM s bounds = Inl Assertion_Failed)
       = (DIM \<noteq> s_dim s)
     \<and> (\<not> s_is_future s \<longrightarrow>
          (Store_write_accessor cfg sizeof_T DIM s = Inl Assertion_Failed)
            = (\<not> (DIM = s_dim s \<or> s_dim s = 0))
          \<and> (Store_read_write_accessor cfg sizeof_T DIM s = Inl Assertion_Failed)
            = (\<not> (DIM = s_dim s \<or> s_dim s = 0))
          \<and> (Store_write_accessor_bounds cfg sizeof_T DIM s bounds = Inl Assertion_Failed)
            = (DIM \<noteq> s_dim s)
          \<and> (Store_read_write_accessor_bounds cfg sizeof_T DIM s bounds = Inl Assertion_Failed)
            = (DIM \<noteq> s_dim s)
          \<and> (Store_reduce_accessor_bounds cfg OP EXCLUSIVE DIM s bounds = Inl Assertion_Failed)
            = (DIM \<noteq> s_dim s)
          \<and> (OP = s_redop_id s \<longrightarrow>
               (Store_reduce_accessor cfg OP EXCLUSIVE DIM s = Inl Assertion_Failed)
                 = (DIM \<noteq> s_dim s)))"
  by (auto simp: Store_accessor_defs RegionField_transform_defs c_assert_def
      dim_dispatch_not_assertion split: option.splits)

text \<open>
  A region-backed store of recorded rank 0 and a request for rank 2: the three
  constructors without bounds succeed, the reduction constructor and every constructor
  with bounds fail. With recorded rank 3 the read constructor fails as well.
\<close>

theorem dimension_checks_witness:
  "Store_read_accessor instrumented 4 2 (task_store False 0 5 None)
     = Inr (RegionField_read_accessor 4 2 \<lparr>rf_pr = 1, rf_fid = 7\<rparr>)
   \<and> Store_write_accessor instrumented 4 2 (task_store False 0 5 None)
     = Inr (RegionField_write_accessor 4 2 \<lparr>rf_pr = 1, rf_fid = 7\<rparr>)
   \<and> Store_read_write_accessor instrumented 4 2 (task_store False 0 5 None)
     = Inr (RegionField_read_write_accessor 4 2 \<lparr>rf_pr = 1, rf_fid = 7\<rparr>)
   \<and> Store_reduce_accessor instrumented 5 True 2 (task_store False 0 5 None)
     = Inl Assertion_Failed
   \<and> Store_read_accessor_bounds instrumented 4 2 (task_store False 0 5 None) unit_rect
     = Inl Assertion_Failed
   \<and> Store_write_accessor_bounds instrumented 4 2 (task_store False 0 5 None) unit_rect
     = Inl Assertion_Failed
   \<and> Store_read_write_accessor_bounds instrumented 4 2 (task_store False 0 5 None) unit_rect
     = Inl Assertion_Failed
   \<and> Store_reduce_accessor_bounds instrumented 5 True 2 (task_store False 0 5 None) unit_rect
     = Inl Assertion_Failed
   \<and> Store_read_accessor instrumented 4 2 (task_store False 3 5 None) = Inl Assertion_Failed"
  using dimension_checks [of instrumented 4 2 "task_store False 0 5 None" unit_rect 5 True]
    dimension_checks [of instrumented 4 2 "task_store False 3 5 None" unit_rect 5 True]
  by (simp add: task_example_defs Store_accessor_defs c_assert_def)

section \<open>Domain, shape and scalar\<close>

text \<open>
  Claim C5, as amended. In a build that checks assertions, the domain query fails the
  contract if the store is unbound. Otherwise, and for every store in a build that does
  not check assertions, it takes the fixed domain of the FutureWrapper when the store is
  future-backed, or the runtime's index-space domain of the RegionField's region when it
  is region-backed, applies the forward transform exactly when a transform stack is
  present, and returns the result; except that a build that checks assertions fails the
  contract instead when the dimension of the result differs from the store's recorded
  dimensionality, so that in such a build every returned domain has the recorded
  dimensionality. The shape query hands what its domain query returns to the runtime's
  conversion to a rectangle of the static rank, and fails where its domain query fails.
\<close>

theorem Store_domain_cases:
  "(\<not> NDEBUG cfg \<and> unbound s \<longrightarrow> Store_domain cfg s = Inl Assertion_Failed)
   \<and> (NDEBUG cfg \<or> \<not> unbound s \<longrightarrow>
        Store_domain cfg s =
          (let backing =
                 (if ms_is_future s then fw_domain (ms_future s)
                  else get_index_space_domain (ms_runtime s) (ms_context s)
                         (index_space (region (mrf_req (ms_region_field s)))));
               result = (case ms_transform s of
                           Some ts \<Rightarrow> transform ts backing
                         | None \<Rightarrow> backing)
           in if NDEBUG cfg \<or> dim result = ms_dim s then Inr result
              else Inl Assertion_Failed))
   \<and> (\<forall>d. \<not> NDEBUG cfg \<and> Store_domain cfg s = Inr d \<longrightarrow> dim d = ms_dim s)
   \<and> (\<forall>e. domain_query t = Inl e \<longrightarrow> Store_shape domain_query to_Rect DIM t = Inl e)
   \<and> (\<forall>d. domain_query t = Inr d \<longrightarrow> Store_shape domain_query to_Rect DIM t = to_Rect DIM d)"
  by (cases "ms_transform s")
    (simp_all add: Store_domain_def Store_shape_def c_assert_def Let_def
      FutureWrapper_domain_def RegionField_domain_def get_index_space_def unbound_def)

text \<open>
  The cases of C5 at concrete stores. In the instrumented build: an unbound output, a
  future of rank 1 with its one-point domain, a region of rank 2 with the 4 by 4 domain
  of the runtime, a future of rank 2 whose stack lifts the one-point domain to rank 2,
  and the same stack on a future of rank 1. In the release build: the unbound output and
  a future of rank 2 with the domain of rank 1. The shape query on a domain query that
  answers and on one that fails.
\<close>

theorem Store_domain_cases_witness:
  "Store_domain instrumented (region_store 1 (- 1) True) = Inl Assertion_Failed
   \<and> Store_domain instrumented (future_store 1) = Inr point_domain
   \<and> Store_domain instrumented (region_store 1 (- 1) False) = Inr grid_domain
   \<and> Store_domain instrumented ((future_store 2)\<lparr>ms_transform := Some flatten_stack\<rparr>)
       = Inr (point_domain\<lparr>dim := 2\<rparr>)
   \<and> Store_domain instrumented ((future_store 1)\<lparr>ms_transform := Some flatten_stack\<rparr>)
       = Inl Assertion_Failed
   \<and> Store_domain release (region_store 1 (- 1) True) = Inr grid_domain
   \<and> Store_domain release (future_store 2) = Inr point_domain
   \<and> Store_shape future_only_domain checked_rect 1 (task_store True 1 (- 1) None)
       = Inr \<lparr>rect_dim = 1, rect_lo = [0], rect_hi = [0]\<rparr>
   \<and> Store_shape future_only_domain checked_rect 1 (task_store False 1 (- 1) None)
       = Inl Assertion_Failed"
proof -
  have cfg: "\<not> NDEBUG instrumented" "NDEBUG release"
    by (simp_all add: instrumented_def release_def)
  note cases = Store_domain_cases [of instrumented _ future_only_domain _ checked_rect 1]
  note release_cases = Store_domain_cases [of release _ future_only_domain _ checked_rect 1]
  have unbound_fails: "Store_domain instrumented (region_store 1 (- 1) True) = Inl Assertion_Failed"
    using cases [of "region_store 1 (- 1) True"] cfg
    by (simp add: unbound_def region_store_def Store_from_region_field_def)
  have future_domain: "Store_domain instrumented (future_store 1) = Inr point_domain"
    using cases [of "future_store 1"] cfg
    by (simp add: unbound_def future_store_def Store_from_future_def FutureWrapper_ctor_def
        point_domain_def)
  have region_domain: "Store_domain instrumented (region_store 1 (- 1) False) = Inr grid_domain"
    using cases [of "region_store 1 (- 1) False"] cfg
    by (simp add: unbound_def region_store_def Store_from_region_field_def grid_runtime_def
        grid_domain_def)
  have transformed:
    "Store_domain instrumented ((future_store 2)\<lparr>ms_transform := Some flatten_stack\<rparr>)
       = Inr (point_domain\<lparr>dim := 2\<rparr>)"
    using cases [of "(future_store 2)\<lparr>ms_transform := Some flatten_stack\<rparr>"] cfg
    by (simp add: unbound_def future_store_def Store_from_future_def FutureWrapper_ctor_def
        flatten_stack_def)
  have mismatch:
    "Store_domain instrumented ((future_store 1)\<lparr>ms_transform := Some flatten_stack\<rparr>)
       = Inl Assertion_Failed"
    using cases [of "(future_store 1)\<lparr>ms_transform := Some flatten_stack\<rparr>"] cfg
    by (simp add: unbound_def future_store_def Store_from_future_def FutureWrapper_ctor_def
        flatten_stack_def)
  have release_unbound: "Store_domain release (region_store 1 (- 1) True) = Inr grid_domain"
    using release_cases [of "region_store 1 (- 1) True"] cfg
    by (simp add: region_store_def Store_from_region_field_def grid_runtime_def)
  have release_mismatch: "Store_domain release (future_store 2) = Inr point_domain"
    using release_cases [of "future_store 2"] cfg
    by (simp add: future_store_def Store_from_future_def FutureWrapper_ctor_def)
  have shape_answers:
    "Store_shape future_only_domain checked_rect 1 (task_store True 1 (- 1) None)
       = Inr \<lparr>rect_dim = 1, rect_lo = [0], rect_hi = [0]\<rparr>"
    using cases [of "future_store 1" "task_store True 1 (- 1) None"]
    by (simp add: future_only_domain_def checked_rect_def task_store_def point_domain_def)
  have shape_fails:
    "Store_shape future_only_domain checked_rect 1 (task_store False 1 (- 1) None)
       = Inl Assertion_Failed"
    using cases [of "future_store 1" "task_store False 1 (- 1) None"]
    by (simp add: future_only_domain_def task_store_def)
  from unbound_fails future_domain region_domain transformed mismatch release_unbound
    release_mismatch shape_answers shape_fails
  show ?thesis by simp
qed

text \<open>
  Claim C5 as stated lets every bound store return its domain, of the recorded
  dimensionality. A bound, future-backed store of recorded rank 2 without a transform
  stack, whose FutureWrapper has the one-point domain of rank 1, does not return that
  domain in the instrumented build: the second assertion,
  \<^verbatim>\<open>assert(result.dim == dim_)\<close>, fails. In the release build it returns the
  domain, whose dimension is not the recorded one.
\<close>

theorem bound_store_domain_counterexample:
  "\<not> unbound (future_store 2)
   \<and> ms_is_future (future_store 2)
   \<and> ms_transform (future_store 2) = None
   \<and> FutureWrapper_domain (ms_future (future_store 2)) = point_domain
   \<and> Store_domain instrumented (future_store 2) = Inl Assertion_Failed
   \<and> Store_domain release (future_store 2) = Inr point_domain
   \<and> dim point_domain \<noteq> ms_dim (future_store 2)"
  by (simp add: Store_domain_def c_assert_def FutureWrapper_domain_def
      query_defs example_defs instrumented_def release_def point_domain_def)

text \<open>
  Claim C6. \<^verbatim>\<open>Store::scalar<VAL>()\<close> is valid only on future-backed stores: on a
  region-backed store it fails the assertion on \<open>is_future\<close> in a build that checks
  assertions, and on a future-backed store it returns the result of the future read at
  type \<open>VAL\<close>. (When the value becomes available is outside the model.)
\<close>

theorem Store_scalar_contract:
  "(\<not> NDEBUG cfg \<and> \<not> s_is_future s \<longrightarrow> Store_scalar cfg get_result s = Inl Assertion_Failed)
   \<and> (s_is_future s \<longrightarrow> Store_scalar cfg get_result s = Inr (get_result (s_future s)))"
  by (simp add: Store_scalar_def c_assert_def)

text \<open>A region-backed and a future-backed store, with a reader of the future.\<close>

theorem Store_scalar_contract_witness:
  "Store_scalar instrumented (\<lambda>f. 41 + int f) (task_store False 2 (- 1) None)
     = Inl Assertion_Failed
   \<and> Store_scalar instrumented (\<lambda>f. 41 + int f) (task_store True 2 (- 1) None) = Inr 41
   \<and> Store_scalar release (\<lambda>f. 41 + int f) (task_store True 2 (- 1) None) = Inr 41"
  using Store_scalar_contract [of instrumented "task_store False 2 (- 1) None" "\<lambda>f. 41 + int f"]
    Store_scalar_contract [of instrumented "task_store True 2 (- 1) None" "\<lambda>f. 41 + int f"]
    Store_scalar_contract [of release "task_store True 2 (- 1) None" "\<lambda>f. 41 + int f"]
  by (simp add: task_example_defs)

section \<open>Construction of a Copy\<close>

text \<open>
  Claim C7. The constructor of \<^verbatim>\<open>Copy\<close> unpacks exactly four lists of Stores
  from the deserializer, in the order sources, destinations, source indirections,
  destination indirections, each with the same unpacking operation, and steps the
  deserializer to the next requirement list between two consecutive lists. In a debug
  build (\<^verbatim>\<open>DEBUG_LEGATE\<close> defined, assertions checked) it fails an assertion if
  some store of one of the four lists is future-backed, and returns the four lists
  otherwise.
\<close>

theorem Copy_ctor_unpacks:
  "Copy_ctor cfg D c runtime ctx =
     (let d0 = dez_ctor D (mapper_data c) (mapper_data_size c)
                 [src_requirements c, dst_requirements c,
                  src_indirect_requirements c, dst_indirect_requirements c]
                 runtime ctx;
          r1 = unpack_Stores D d0;
          r2 = unpack_Stores D (next_requirement_list D (snd r1));
          r3 = unpack_Stores D (next_requirement_list D (snd r2));
          r4 = unpack_Stores D (next_requirement_list D (snd r3))
      in if DEBUG_LEGATE cfg \<and> \<not> NDEBUG cfg
            \<and> list_ex is_future (fst r1 @ fst r2 @ fst r3 @ fst r4)
         then Inl Assertion_Failed
         else Inr \<lparr>copy_op = c, inputs = fst r1, outputs = fst r2,
                   input_indirections = fst r3, output_indirections = fst r4\<rparr>)"
  by (auto simp: Copy_ctor_def Let_def assert_none_future_eq split: prod.splits)

text \<open>
  A deserializer that hands out four given lists in turn: the lists arrive in the four
  members in order; a future among the source indirections fails the debug build and
  passes the release build.
\<close>

theorem Copy_ctor_unpacks_witness:
  "Copy_ctor instrumented
     (list_deserializer [[region_store 1 (- 1) False], [region_store 2 (- 1) False], [], []])
     empty_copy grid_runtime 0
   = Inr \<lparr>copy_op = empty_copy, inputs = [region_store 1 (- 1) False],
          outputs = [region_store 2 (- 1) False],
          input_indirections = [], output_indirections = []\<rparr>
   \<and> Copy_ctor instrumented
     (list_deserializer [[region_store 1 (- 1) False], [], [future_store 2], []])
     empty_copy grid_runtime 0
   = Inl Assertion_Failed
   \<and> Copy_ctor release
     (list_deserializer [[region_store 1 (- 1) False], [], [future_store 2], []])
     empty_copy grid_runtime 0
   = Inr \<lparr>copy_op = empty_copy, inputs = [region_store 1 (- 1) False],
          outputs = [],
          input_indirections = [future_store 2], output_indirections = []\<rparr>"
  using Copy_ctor_unpacks [of instrumented
      "list_deserializer [[region_store 1 (- 1) False], [region_store 2 (- 1) False], [], []]"
      empty_copy grid_runtime 0]
    Copy_ctor_unpacks [of instrumented
      "list_deserializer [[region_store 1 (- 1) False], [], [future_store 2], []]"
      empty_copy grid_runtime 0]
    Copy_ctor_unpacks [of release
      "list_deserializer [[region_store 1 (- 1) False], [], [future_store 2], []]"
      empty_copy grid_runtime 0]
  by (simp add: list_deserializer_def instrumented_def release_def is_future_def
      region_store_def future_store_def Store_from_region_field_def Store_from_future_def)

section \<open>Further properties\<close>

text \<open>
  \<^verbatim>\<open>Store::can_colocate_with\<close> is symmetric for every pair of stores.
\<close>

lemma can_colocate_with_commutes:
  "Store_can_colocate_with a b = Store_can_colocate_with b a"
  by (auto simp: Store_can_colocate_with_def RegionField_can_colocate_with_def)

text \<open>
  The reduction constructor without bounds checks the operator: in a build that checks
  assertions, on a region-backed store of the requested rank, it fails when the
  requested operator differs from the recorded one, and with equal ids and no transform
  stack it builds the accessor from the RegionField with the recorded id.
\<close>

lemma reduce_accessor_checks_operator:
  "\<not> NDEBUG cfg \<and> \<not> s_is_future s \<and> DIM = s_dim s \<longrightarrow>
     (OP \<noteq> s_redop_id s \<longrightarrow> Store_reduce_accessor cfg OP EXCLUSIVE DIM s = Inl Assertion_Failed)
     \<and> (OP = s_redop_id s \<and> s_transform s = None \<longrightarrow>
          Store_reduce_accessor cfg OP EXCLUSIVE DIM s =
            Inr \<lparr>acc_type = AccessorRD OP EXCLUSIVE DIM,
                 acc_args = Region_Args (rf_pr (s_region_field s)) (rf_fid (s_region_field s))
                              (Some (s_redop_id s)) None\<rparr>)"
  by (simp add: Store_reduce_accessor_def RegionField_reduce_accessor_def c_assert_def)

lemma reduce_accessor_checks_operator_example:
  "Store_reduce_accessor instrumented 7 True 2 (task_store False 2 5 None) = Inl Assertion_Failed
   \<and> Store_reduce_accessor instrumented 5 True 2 (task_store False 2 5 None) =
       Inr \<lparr>acc_type = AccessorRD 5 True 2, acc_args = Region_Args 1 7 (Some 5) None\<rparr>"
  using reduce_accessor_checks_operator [of instrumented "task_store False 2 5 None" 2 7 True]
    reduce_accessor_checks_operator [of instrumented "task_store False 2 5 None" 2 5 True]
  by (simp add: task_example_defs)

text \<open>
  What the three constructors of the mapping-side Store record as reduction-operator
  id: the constructor from a future and the constructor from a requirement record
  \<open>-1\<close>, the constructor from a RegionField records the id it is given.
\<close>

lemma constructors_record_redop_id:
  "ms_redop_id (Store_from_future this d c fut tr) = - 1
   \<and> (\<forall>s. Store_from_requirement this runtime ctx requirement = Inr s
          \<longrightarrow> ms_redop_id s = - 1)
   \<and> ms_redop_id (Store_from_region_field this runtime ctx d c redop_id rf is_output tr)
       = redop_id"
  by (auto simp: Store_from_future_def Store_from_requirement_def Store_from_region_field_def
      Let_def split: list.splits)

end
